theory Spec2Isabelle
  imports Complex_Main "HOL-Library.Word" "HOL-Library.Sublist"
begin

unbundle bit_operations_syntax

section \<open>Error codes\<close>

text \<open>
  \<^verbatim>\<open>enum class MavlinkErrc\<close> with the integer values the source gives its enumerators
  (\<^verbatim>\<open>NoHeartbeat = 1\<close>, then counting up; \<^verbatim>\<open>TransmitTimeout = 10\<close>, then counting up).
\<close>

datatype MavlinkErrc =
  NoHeartbeat | NoCommandAck | FailedWrite | FailedRead | TransmitTimeout | ReceiveTimeout

fun errc_int :: "MavlinkErrc \<Rightarrow> int" where
  "errc_int NoHeartbeat = 1"
| "errc_int NoCommandAck = 2"
| "errc_int FailedWrite = 3"
| "errc_int FailedRead = 4"
| "errc_int TransmitTimeout = 10"
| "errc_int ReceiveTimeout = 11"

text \<open>
  A \<^verbatim>\<open>std::error_code\<close> is an integer and the category that interprets it. Two
  categories occur: the one of the serial port's own errors and \<^verbatim>\<open>MavlinkErrCategory\<close>.
  In a condition (\<^verbatim>\<open>if (error)\<close>) an error code is true when its integer is not zero.
\<close>

datatype error_category = asio_category | mavlinkerrc_category

datatype error_code = Error_code (ec_int: int) (ec_category: error_category)

definition is_set :: "error_code \<Rightarrow> bool" where
  "is_set e = (ec_int e \<noteq> 0)"

definition make_error_code :: "MavlinkErrc \<Rightarrow> error_code" where
  "make_error_code e = Error_code (errc_int e) mavlinkerrc_category"

text \<open>
  \<^verbatim>\<open>tResult<T> = tl::expected<T, std::error_code>\<close>: \<open>Inl\<close> is \<^verbatim>\<open>make_unexpected\<close>,
  \<open>Inr\<close> the value.
\<close>

type_synonym 'a tResult = "error_code + 'a"

abbreviation make_unexpected :: "error_code \<Rightarrow> 'a tResult" where
  "make_unexpected \<equiv> Inl"

text \<open>
  How a coroutine of type \<^verbatim>\<open>asio::awaitable<tResult<void>>\<close> ends. \<open>Co_return r\<close>: it ran
  \<^verbatim>\<open>co_return r\<close>, and the awaiting caller gets \<open>r\<close>. \<open>End_of_body\<close>: it reached the end
  of its body. The source has no \<^verbatim>\<open>co_return\<close> on any path without an error, and the
  promise of an awaitable with a result has no \<^verbatim>\<open>return_void\<close>, so on such a path no
  result is stored: what the awaiting caller would read is not defined. The model
  therefore gives these paths no result value at all.
\<close>

datatype 'a completion = Co_return "'a tResult" | End_of_body

section \<open>Messages\<close>

text \<open>
  What the \<^verbatim>\<open>mavlink_msg_*_pack_chan\<close> calls of the source put into a message: the
  sender, the channel the message is packed on and the fields of the message, in the
  order of the calls' arguments. The type \<open>'f\<close> stands for \<^verbatim>\<open>float\<close>: the source
  only stores float constants and the caller's coordinates, and computes nothing from
  them.
\<close>

datatype 'f mavlink_message =
    PARAM_SET
      (system_id: "8 word") (component_id: "8 word") (chan: "8 word")
      (target_system: "8 word") (target_component: "8 word")
      (param_id: string) (param_value: 'f) (param_type: "8 word")
  | COMMAND_INT
      (system_id: "8 word") (component_id: "8 word") (chan: "8 word")
      (target_system: "8 word") (target_component: "8 word")
      (coordinate_frame: "8 word") (cmd: "16 word") (cur: "8 word") (autocontinue: "8 word")
      (param1: 'f) (param2: 'f) (param3: 'f) (param4: 'f)
      (int_x: int) (int_y: int) (flt_z: 'f)
  | SET_POSITION_TARGET_LOCAL_NED
      (system_id: "8 word") (component_id: "8 word") (chan: "8 word")
      (time_boot_ms: "32 word")
      (target_system: "8 word") (target_component: "8 word")
      (coordinate_frame: "8 word") (type_mask: "16 word")
      (pos_x: 'f) (pos_y: 'f) (pos_z: 'f)
      (vx: 'f) (vy: 'f) (vz: 'f)
      (afx: 'f) (afy: 'f) (afz: 'f)
      (yaw: 'f) (yaw_rate: 'f)
  | HEARTBEAT
      (system_id: "8 word") (component_id: "8 word") (chan: "8 word")
      (mav_type: "8 word") (autopilot: "8 word") (base_mode: "8 word")
      (custom_mode: "32 word") (system_status: "8 word")

text \<open>
  Constants of the MAVLink common dialect (\<^verbatim>\<open>mavlink/common/mavlink.h\<close>, which the
  source includes and which is not part of the repository), with the values the dialect
  gives them.
\<close>

definition MAV_PARAM_TYPE_INT16 :: "8 word" where "MAV_PARAM_TYPE_INT16 = 4"
definition MAV_FRAME_LOCAL_NED :: "8 word" where "MAV_FRAME_LOCAL_NED = 1"
definition MAV_FRAME_BODY_OFFSET_NED :: "8 word" where "MAV_FRAME_BODY_OFFSET_NED = 9"
definition MAV_TYPE_ONBOARD_CONTROLLER :: "8 word" where "MAV_TYPE_ONBOARD_CONTROLLER = 18"
definition MAV_AUTOPILOT_INVALID :: "8 word" where "MAV_AUTOPILOT_INVALID = 8"
definition MAV_MODE_FLAG_GUIDED_ENABLED :: "8 word" where "MAV_MODE_FLAG_GUIDED_ENABLED = 8"
definition MAV_STATE_STANDBY :: "8 word" where "MAV_STATE_STANDBY = 3"
definition MAVLINK_MSG_ID_COMMAND_ACK :: nat where "MAVLINK_MSG_ID_COMMAND_ACK = 77"

section \<open>The interface's fields\<close>

text \<open>
  The data members of \<^verbatim>\<open>MavlinkInterface\<close> with their default member initialisers. The
  constructor sets the serial port and the start time only, and no member function
  assigns to a member, so every instance holds these values for its whole life.
\<close>

definition m_heartbeat_channel :: "8 word" where "m_heartbeat_channel = 0"
definition m_targets_channel :: "8 word" where "m_targets_channel = 1"
definition m_positions_channel :: "8 word" where "m_positions_channel = 2"
definition m_system_id :: "8 word" where "m_system_id = 1"
definition m_component_id :: "8 word" where "m_component_id = 1"
definition m_my_id :: "8 word" where "m_my_id = 5"
definition USE_POSITION :: "32 word" where "USE_POSITION = 0x0DFC"
definition USE_VELOCITY :: "32 word" where "USE_VELOCITY = 0x0DE7"
definition USE_YAW :: "32 word" where "USE_YAW = 0x09FF"

text \<open>\<^verbatim>\<open>const float INVALID = 0.0f;\<close>\<close>

definition INVALID :: "'f::zero" where "INVALID = 0"

section \<open>The serial port and the frame codec\<close>

text \<open>
  The serial port is the environment. Its behaviour is a script: \<open>write_results w n\<close> is
  the integer of the error code that the \<open>n\<close>-th \<^verbatim>\<open>async_write\<close> completes with (zero: all
  bytes were written), \<open>read_results w n\<close> the error integer and the bytes of the \<open>n\<close>-th
  \<^verbatim>\<open>async_read_some\<close>. \<open>written\<close> lists the messages handed to \<^verbatim>\<open>async_write\<close> so
  far, oldest first, and \<open>reads_done\<close> counts the reads so far. \<open>codec\<close> is the state of
  the MAVLink library (its per-channel status and message buffers).
\<close>

record ('f, 'c) world =
  write_results :: "nat \<Rightarrow> int"
  read_results :: "nat \<Rightarrow> int \<times> 8 word list"
  written :: "'f mavlink_message list"
  reads_done :: nat
  codec :: 'c

text \<open>
  The frame codec is the MAVLink library's parser, which the source calls and which is
  not part of the repository. The model takes it as a parameter and assumes nothing
  about it: \<open>mavlink_parse_char\<close> feeds one byte to a channel's parser, \<open>msg_received\<close>
  reads \<^verbatim>\<open>mavlink_get_channel_status(channel)->msg_received\<close> (a number; the loop only
  compares two readings of it) and \<open>channel_buffer_msgid\<close> reads
  \<^verbatim>\<open>mavlink_get_channel_buffer(channel)->msgid\<close>.
\<close>

record 'c frame_codec =
  mavlink_parse_char :: "8 word \<Rightarrow> 8 word \<Rightarrow> 'c \<Rightarrow> 'c"
  msg_received :: "8 word \<Rightarrow> 'c \<Rightarrow> nat"
  channel_buffer_msgid :: "8 word \<Rightarrow> 'c \<Rightarrow> nat"

section \<open>Message exchange primitives\<close>

text \<open>
  \<^verbatim>\<open>send_message\<close>: one \<^verbatim>\<open>async_write\<close> of the encoded message. The result is the error
  code of the write (the byte count that comes with it is ignored by every caller).
  \<open>written\<close> records the message that was handed to \<^verbatim>\<open>send_message\<close>, whatever the
  outcome of the write; the bytes that reach the wire are the port's matter (the source
  passes \<^verbatim>\<open>async_write\<close> a buffer local to \<^verbatim>\<open>send_message\<close>).
\<close>

definition send_message ::
  "'f mavlink_message \<Rightarrow> ('f, 'c) world \<Rightarrow> error_code \<times> ('f, 'c) world" where
  "send_message msg w =
     (Error_code (write_results w (length (written w))) asio_category,
      w\<lparr>written := written w @ [msg]\<rparr>)"

text \<open>
  One \<^verbatim>\<open>async_read_some\<close> into the 8-byte buffer: the error code and the bytes read (at
  most 8, the size of the buffer).
\<close>

definition async_read_some ::
  "('f, 'c) world \<Rightarrow> error_code \<times> 8 word list \<times> ('f, 'c) world" where
  "async_read_some w =
     (Error_code (fst (read_results w (reads_done w))) asio_category,
      take 8 (snd (read_results w (reads_done w))),
      w\<lparr>reads_done := Suc (reads_done w)\<rparr>)"

text \<open>
  The loop of \<^verbatim>\<open>wait_for_next_message\<close>. It has no bound, so it is a partial function:
  \<open>None\<close> means that the call never returns. A failed read ends the call with
  \<^verbatim>\<open>co_return make_unexpected(error)\<close>; when the loop is left because the counter has
  changed, the body ends without a \<^verbatim>\<open>co_return\<close>.
\<close>

partial_function (option) wait_loop ::
  "'c frame_codec \<Rightarrow> 8 word \<Rightarrow> nat \<Rightarrow> ('f, 'c) world \<Rightarrow> (unit completion \<times> ('f, 'c) world) option"
  where
  "wait_loop cdc channel msgs_before w =
     (if msg_received cdc channel (codec w) = msgs_before then
        (let r = async_read_some w; error = fst r; buffer = fst (snd r); w' = snd (snd r) in
         if is_set error then Some (Co_return (make_unexpected error), w')
         else wait_loop cdc channel msgs_before
                (w'\<lparr>codec := fold (mavlink_parse_char cdc channel) buffer (codec w')\<rparr>))
      else Some (End_of_body, w))"

definition wait_for_next_message ::
  "'c frame_codec \<Rightarrow> 8 word \<Rightarrow> ('f, 'c) world \<Rightarrow> (unit completion \<times> ('f, 'c) world) option" where
  "wait_for_next_message cdc channel w =
     wait_loop cdc channel (msg_received cdc channel (codec w)) w"

section \<open>The command sequencer\<close>

text \<open>
  \<^verbatim>\<open>set_param_curried\<close> is \<^verbatim>\<open>mavlink_msg_param_set_pack_chan\<close> with its leading
  arguments bound (\<^verbatim>\<open>std::bind_front\<close>): the parameter's name, value and type remain.
\<close>

definition set_param_curried :: "string \<Rightarrow> 'f \<Rightarrow> 8 word \<Rightarrow> 'f mavlink_message" where
  "set_param_curried =
     PARAM_SET m_system_id m_my_id m_heartbeat_channel m_system_id m_component_id"

definition mav_cmd_preflight_reboot_shutdown :: "16 word" where
  "mav_cmd_preflight_reboot_shutdown = 246"

text \<open>The \<^verbatim>\<open>mavlink_msg_command_int_pack_chan\<close> call of \<^verbatim>\<open>init\<close>.\<close>

definition reboot_command :: "'f::{zero,one} mavlink_message" where
  "reboot_command =
     COMMAND_INT m_system_id m_my_id m_heartbeat_channel m_system_id m_component_id
       MAV_FRAME_LOCAL_NED mav_cmd_preflight_reboot_shutdown
       0 0
       1 0 0 0
       0 0 0"

text \<open>
  The code after the loop of \<^verbatim>\<open>init\<close>, where every \<^verbatim>\<open>break\<close> lands:
  \<^verbatim>\<open>if (error) co_return make_unexpected(MavlinkErrc::FailedWrite);\<close>
  and then the end of the body.
\<close>

definition init_after_loop ::
  "error_code \<Rightarrow> ('f, 'c) world \<Rightarrow> unit completion \<times> ('f, 'c) world" where
  "init_after_loop error w =
     (if is_set error then Co_return (make_unexpected (make_error_code FailedWrite)) else End_of_body, w)"

text \<open>
  \<^verbatim>\<open>init\<close>. The body of \<^verbatim>\<open>while (not ran_once)\<close> runs once; each \<^verbatim>\<open>break\<close> goes to
  \<open>init_after_loop\<close>. The result of \<^verbatim>\<open>wait_for_next_message\<close> is dropped by the source
  (\<^verbatim>\<open>co_await wait_for_next_message(m_heartbeat_channel);\<close> as a statement); only the
  world it leaves is used. \<open>None\<close>: the call never returns.
\<close>

definition init ::
  "'c frame_codec \<Rightarrow> ('f::{zero,one}, 'c) world \<Rightarrow> (unit completion \<times> ('f, 'c) world) option" where
  "init cdc w0 =
     (
      case send_message (set_param_curried ''SR0_RAW_SENS'' 0 MAV_PARAM_TYPE_INT16) w0 of (error, w1) \<Rightarrow>
      if is_set error then Some (init_after_loop error w1) else
      case send_message (set_param_curried ''SR0_EXT_STAT'' 0 MAV_PARAM_TYPE_INT16) w1 of (error, w2) \<Rightarrow>
      if is_set error then Some (init_after_loop error w2) else
      case send_message (set_param_curried ''SR0_RC_CHAN'' 0 MAV_PARAM_TYPE_INT16) w2 of (error, w3) \<Rightarrow>
      if is_set error then Some (init_after_loop error w3) else
      case send_message (set_param_curried ''SR0_RAW_CTRL'' 0 MAV_PARAM_TYPE_INT16) w3 of (error, w4) \<Rightarrow>
      if is_set error then Some (init_after_loop error w4) else
      case send_message (set_param_curried ''SR0_POSITION'' 0 MAV_PARAM_TYPE_INT16) w4 of (error, w5) \<Rightarrow>
      if is_set error then Some (init_after_loop error w5) else
      case send_message (set_param_curried ''SR0_EXTRA1'' 0 MAV_PARAM_TYPE_INT16) w5 of (error, w6) \<Rightarrow>
      if is_set error then Some (init_after_loop error w6) else
      case send_message (set_param_curried ''SR0_EXTRA2'' 0 MAV_PARAM_TYPE_INT16) w6 of (error, w7) \<Rightarrow>
      if is_set error then Some (init_after_loop error w7) else
      case send_message (set_param_curried ''SR0_EXTRA3'' 0 MAV_PARAM_TYPE_INT16) w7 of (error, w8) \<Rightarrow>
      if is_set error then Some (init_after_loop error w8) else
      case send_message (set_param_curried ''SR0_PARAMS'' 0 MAV_PARAM_TYPE_INT16) w8 of (error, w9) \<Rightarrow>
      if is_set error then Some (init_after_loop error w9) else
      case send_message (set_param_curried ''SR0_ADSB'' 0 MAV_PARAM_TYPE_INT16) w9 of (error, w10) \<Rightarrow>
      if is_set error then Some (init_after_loop error w10) else
      case send_message reboot_command w10 of (error, w11) \<Rightarrow>
      if is_set error then Some (init_after_loop error w11) else
      (case wait_for_next_message cdc m_heartbeat_channel w11 of
         None \<Rightarrow> None
       | Some (ignored, w12) \<Rightarrow>
           (let new_msg_msgid = channel_buffer_msgid cdc m_heartbeat_channel (codec w12) in
            if new_msg_msgid \<noteq> MAVLINK_MSG_ID_COMMAND_ACK
            then Some (Co_return (make_unexpected (make_error_code NoCommandAck)), w12)
            else Some (init_after_loop error w12))))"

section \<open>Position commander and heartbeat\<close>

text \<open>
  \<^verbatim>\<open>set_target_position_local\<close>. \<open>uptime\<close> is the value of \<^verbatim>\<open>get_uptime()\<close> at the call
  (milliseconds since construction, read from the clock). The mask argument of the pack
  function is a \<^verbatim>\<open>uint16_t\<close>, so the 32-bit field \<open>USE_POSITION\<close> is narrowed.
\<close>

definition position_target ::
  "32 word \<Rightarrow> 'f \<times> 'f \<times> 'f \<Rightarrow> ('f::zero) mavlink_message" where
  "position_target uptime xyz =
     (case xyz of (xyz0, xyz1, xyz2) \<Rightarrow>
        SET_POSITION_TARGET_LOCAL_NED m_system_id m_my_id m_targets_channel
          uptime m_system_id m_component_id
          MAV_FRAME_BODY_OFFSET_NED
          (ucast USE_POSITION)
          xyz0 xyz1 xyz2
          INVALID INVALID INVALID
          INVALID INVALID INVALID
          INVALID INVALID)"

definition set_target_position_local ::
  "32 word \<Rightarrow> 'f \<times> 'f \<times> 'f \<Rightarrow> ('f::zero, 'c) world \<Rightarrow> unit completion \<times> ('f, 'c) world" where
  "set_target_position_local uptime xyz w =
     (case send_message (position_target uptime xyz) w of (error, w') \<Rightarrow>
        if is_set error then (Co_return (make_unexpected (make_error_code FailedWrite)), w')
        else (End_of_body, w'))"

text \<open>
  \<^verbatim>\<open>heartbeat\<close>. The source passes the float \<open>INVALID\<close> (0.0f) as the \<^verbatim>\<open>uint32_t\<close>
  custom mode, which converts to 0. After a failed write it runs
  \<^verbatim>\<open>co_return make_unexpected(MavlinkErrc::FailedWrite)\<close>; after a successful write it
  logs and reaches the end of its body.
\<close>

definition heartbeat_message :: "'f mavlink_message" where
  "heartbeat_message =
     HEARTBEAT m_system_id m_my_id m_heartbeat_channel
       MAV_TYPE_ONBOARD_CONTROLLER MAV_AUTOPILOT_INVALID MAV_MODE_FLAG_GUIDED_ENABLED
       0 MAV_STATE_STANDBY"

definition heartbeat :: "('f, 'c) world \<Rightarrow> unit completion \<times> ('f, 'c) world" where
  "heartbeat w =
     (case send_message heartbeat_message w of (error, w') \<Rightarrow>
        if is_set error then (Co_return (make_unexpected (make_error_code FailedWrite)), w')
        else (End_of_body, w'))"

text \<open>
  \<^verbatim>\<open>heartbeat_loop\<close> is not embedded. Its text binds \<^verbatim>\<open>auto [error, v]\<close> to the
  \<^verbatim>\<open>tl::expected\<close> that \<^verbatim>\<open>heartbeat\<close> yields, which is not a type that can be bound
  that way, and after a successful heartbeat the test \<^verbatim>\<open>if (error)\<close> would read a result
  that \<open>heartbeat\<close> has not stored. What the loop does after a heartbeat therefore
  has no definition to translate; what \<open>heartbeat\<close> itself does is above.
\<close>

section \<open>The type mask of a position target\<close>

text \<open>
  The bits of \<^verbatim>\<open>POSITION_TARGET_TYPEMASK\<close> in the MAVLink common dialect (not part of
  the repository): one ignore bit for each of the eleven target fields (a field is used
  by the autopilot when its bit is clear), and bit 9, which does not belong to a field
  (it turns the acceleration fields into a force).
\<close>

datatype target_field =
  X | Y | Z | VX | VY | VZ | AFX | AFY | AFZ | YAW | YAW_RATE

fun ignore_bit :: "target_field \<Rightarrow> 16 word" where
  "ignore_bit X = 1"
| "ignore_bit Y = 2"
| "ignore_bit Z = 4"
| "ignore_bit VX = 8"
| "ignore_bit VY = 16"
| "ignore_bit VZ = 32"
| "ignore_bit AFX = 64"
| "ignore_bit AFY = 128"
| "ignore_bit AFZ = 256"
| "ignore_bit YAW = 1024"
| "ignore_bit YAW_RATE = 2048"

definition marked_valid :: "16 word \<Rightarrow> target_field \<Rightarrow> bool" where
  "marked_valid tm f = (tm AND ignore_bit f = 0)"

text \<open>The value a message carries in a target field.\<close>

fun field_of :: "'f mavlink_message \<Rightarrow> target_field \<Rightarrow> 'f" where
  "field_of m X = pos_x m"
| "field_of m Y = pos_y m"
| "field_of m Z = pos_z m"
| "field_of m VX = vx m"
| "field_of m VY = vy m"
| "field_of m VZ = vz m"
| "field_of m AFX = afx m"
| "field_of m AFY = afy m"
| "field_of m AFZ = afz m"
| "field_of m YAW = yaw m"
| "field_of m YAW_RATE = yaw_rate m"

section \<open>Proof devices\<close>

text \<open>
  The eleven messages of \<^verbatim>\<open>init\<close> in the order of its text, and the sending of a list
  of messages one after the other up to the first failed write. \<open>init\<close> is shown below
  to do exactly that with these messages (lemma \<open>init_send_each\<close>).
\<close>

definition init_messages :: "('f::{zero,one}) mavlink_message list" where
  "init_messages =
     [set_param_curried ''SR0_RAW_SENS'' 0 MAV_PARAM_TYPE_INT16,
      set_param_curried ''SR0_EXT_STAT'' 0 MAV_PARAM_TYPE_INT16,
      set_param_curried ''SR0_RC_CHAN'' 0 MAV_PARAM_TYPE_INT16,
      set_param_curried ''SR0_RAW_CTRL'' 0 MAV_PARAM_TYPE_INT16,
      set_param_curried ''SR0_POSITION'' 0 MAV_PARAM_TYPE_INT16,
      set_param_curried ''SR0_EXTRA1'' 0 MAV_PARAM_TYPE_INT16,
      set_param_curried ''SR0_EXTRA2'' 0 MAV_PARAM_TYPE_INT16,
      set_param_curried ''SR0_EXTRA3'' 0 MAV_PARAM_TYPE_INT16,
      set_param_curried ''SR0_PARAMS'' 0 MAV_PARAM_TYPE_INT16,
      set_param_curried ''SR0_ADSB'' 0 MAV_PARAM_TYPE_INT16,
      reboot_command]"

fun send_each ::
  "'f mavlink_message list \<Rightarrow> ('f, 'c) world \<Rightarrow> error_code \<times> ('f, 'c) world" where
  "send_each [] w = (Error_code 0 asio_category, w)"
| "send_each (msg # msgs) w =
     (case send_message msg w of (error, w') \<Rightarrow>
        if is_set error then (error, w') else send_each msgs w')"

text \<open>
  The world after \<open>n\<close> successful reads whose bytes were fed to the parser of \<open>channel\<close>:
  what the loop of \<open>wait_for_next_message\<close> has made of the world after \<open>n\<close> rounds.
\<close>

primrec after_reads :: "'c frame_codec \<Rightarrow> 8 word \<Rightarrow> nat \<Rightarrow> ('f, 'c) world \<Rightarrow> ('f, 'c) world" where
  "after_reads cdc channel 0 w = w"
| "after_reads cdc channel (Suc n) w =
     after_reads cdc channel n
       ((snd (snd (async_read_some w)))
          \<lparr>codec := fold (mavlink_parse_char cdc channel) (fst (snd (async_read_some w)))
                      (codec w)\<rparr>)"

text \<open>
  Nothing arrives: from the world \<open>w\<close> on, every read succeeds and after no number of
  reads the counter of \<open>channel\<close> differs from \<open>before\<close>.
\<close>

definition silent :: "'c frame_codec \<Rightarrow> 8 word \<Rightarrow> nat \<Rightarrow> ('f, 'c) world \<Rightarrow> bool" where
  "silent cdc channel before w =
     (\<forall>n. fst (read_results w (reads_done w + n)) = 0 \<and>
          msg_received cdc channel (codec (after_reads cdc channel n w)) = before)"

text \<open>
  A small frame codec on which the model can be run, one instance of the parameter. A
  frame is the start byte \<open>0xFD\<close> followed by one byte, the message id. Each channel
  counts its completed frames and keeps the id of the last one.
\<close>

record toy_channel =
  frames :: nat
  last_msgid :: nat
  in_frame :: bool

definition toy_parse_char ::
  "8 word \<Rightarrow> 8 word \<Rightarrow> (8 word \<Rightarrow> toy_channel) \<Rightarrow> (8 word \<Rightarrow> toy_channel)" where
  "toy_parse_char channel c st =
     (if in_frame (st channel)
      then st(channel := \<lparr>frames = Suc (frames (st channel)), last_msgid = unat c,
                           in_frame = False\<rparr>)
      else if c = 0xFD then st(channel := (st channel)\<lparr>in_frame := True\<rparr>)
      else st)"

definition toy_codec :: "(8 word \<Rightarrow> toy_channel) frame_codec" where
  "toy_codec =
     \<lparr>mavlink_parse_char = toy_parse_char,
      msg_received = (\<lambda>channel st. frames (st channel)),
      channel_buffer_msgid = (\<lambda>channel st. last_msgid (st channel))\<rparr>"

text \<open>
  A world at the start of a run: nothing written or read yet, every channel of the toy
  codec having completed \<open>n\<close> frames, the last one with message id \<open>msgid\<close>.
\<close>

definition toy_world ::
  "(nat \<Rightarrow> int) \<Rightarrow> (nat \<Rightarrow> int \<times> 8 word list) \<Rightarrow> nat \<Rightarrow> nat \<Rightarrow>
     (real, 8 word \<Rightarrow> toy_channel) world" where
  "toy_world ws rs n msgid =
     \<lparr>write_results = ws, read_results = rs, written = [], reads_done = 0,
      codec = (\<lambda>channel. \<lparr>frames = n, last_msgid = msgid, in_frame = False\<rparr>)\<rparr>"

section \<open>The sends of init\<close>

lemma init_send_each:
  "init cdc w =
     (case send_each init_messages w of (error, w') \<Rightarrow>
        if is_set error then Some (init_after_loop error w')
        else (case wait_for_next_message cdc m_heartbeat_channel w' of
                None \<Rightarrow> None
              | Some (ignored, w'') \<Rightarrow>
                  if channel_buffer_msgid cdc m_heartbeat_channel (codec w'') \<noteq> MAVLINK_MSG_ID_COMMAND_ACK
                  then Some (Co_return (make_unexpected (make_error_code NoCommandAck)), w'')
                  else Some (End_of_body, w'')))"
  unfolding init_def init_messages_def
  by (simp add: send_message_def is_set_def init_after_loop_def split: prod.split option.split)

lemma send_each_ok:
  "(\<forall>j<length msgs. write_results w (length (written w) + j) = 0) \<Longrightarrow>
   send_each msgs w = (Error_code 0 asio_category, w\<lparr>written := written w @ msgs\<rparr>)"
proof (induction msgs arbitrary: w)
  case Nil
  then show ?case by simp
next
  case (Cons m ms)
  from Cons.prems have first: "write_results w (length (written w)) = 0"
    by auto
  let ?w = "w\<lparr>written := written w @ [m]\<rparr>"
  have "\<forall>j<length ms. write_results ?w (length (written ?w) + j) = 0"
    using Cons.prems by auto
  then have "send_each ms ?w = (Error_code 0 asio_category, ?w\<lparr>written := written ?w @ ms\<rparr>)"
    by (rule Cons.IH)
  with first show ?case
    by (simp add: send_message_def is_set_def)
qed

lemma send_each_fail:
  "k < length msgs \<Longrightarrow>
   (\<forall>j<k. write_results w (length (written w) + j) = 0) \<Longrightarrow>
   write_results w (length (written w) + k) \<noteq> 0 \<Longrightarrow>
   send_each msgs w =
     (Error_code (write_results w (length (written w) + k)) asio_category,
      w\<lparr>written := written w @ take (Suc k) msgs\<rparr>)"
proof (induction msgs arbitrary: w k)
  case Nil
  then show ?case by simp
next
  case (Cons m ms)
  show ?case
  proof (cases k)
    case 0
    with Cons.prems show ?thesis
      by (simp add: send_message_def is_set_def)
  next
    case (Suc k')
    let ?w = "w\<lparr>written := written w @ [m]\<rparr>"
    from Cons.prems Suc have first: "write_results w (length (written w)) = 0"
      by auto
    have "k' < length ms" using Cons.prems Suc by simp
    moreover have "\<forall>j<k'. write_results ?w (length (written ?w) + j) = 0"
      using Cons.prems Suc by auto
    moreover have "write_results ?w (length (written ?w) + k') \<noteq> 0"
      using Cons.prems Suc by simp
    ultimately have "send_each ms ?w =
       (Error_code (write_results ?w (length (written ?w) + k')) asio_category,
        ?w\<lparr>written := written ?w @ take (Suc k') ms\<rparr>)"
      by (rule Cons.IH)
    with first Suc show ?thesis
      by (simp add: send_message_def is_set_def)
  qed
qed

section \<open>The wait loop\<close>

lemma wait_loop_done:
  "msg_received cdc channel (codec w) \<noteq> n \<Longrightarrow> wait_loop cdc channel n w = Some (End_of_body, w)"
  by (subst wait_loop.simps) simp

lemma wait_loop_read_error:
  "msg_received cdc channel (codec w) = n \<Longrightarrow> fst (read_results w (reads_done w)) \<noteq> 0 \<Longrightarrow>
   wait_loop cdc channel n w =
     Some (Co_return (make_unexpected (Error_code (fst (read_results w (reads_done w))) asio_category)),
           w\<lparr>reads_done := Suc (reads_done w)\<rparr>)"
  by (subst wait_loop.simps) (simp add: async_read_some_def is_set_def)

lemma wait_loop_read_ok:
  "msg_received cdc channel (codec w) = n \<Longrightarrow> fst (read_results w (reads_done w)) = 0 \<Longrightarrow>
   wait_loop cdc channel n w = wait_loop cdc channel n (after_reads cdc channel 1 w)"
  by (subst wait_loop.simps) (simp add: async_read_some_def is_set_def)

lemma after_reads_Suc:
  "after_reads cdc channel (Suc n) w = after_reads cdc channel n (after_reads cdc channel 1 w)"
  by simp

lemma after_reads_1_fields:
  "reads_done (after_reads cdc channel 1 w) = Suc (reads_done w)"
  "read_results (after_reads cdc channel 1 w) = read_results w"
  "write_results (after_reads cdc channel 1 w) = write_results w"
  "written (after_reads cdc channel 1 w) = written w"
  by (simp_all add: async_read_some_def)

lemma silent_now:
  "silent cdc channel before w \<Longrightarrow>
     msg_received cdc channel (codec w) = before \<and> fst (read_results w (reads_done w)) = 0"
proof -
  assume "silent cdc channel before w"
  then have "fst (read_results w (reads_done w + 0)) = 0 \<and>
          msg_received cdc channel (codec (after_reads cdc channel 0 w)) = before"
    unfolding silent_def by (rule allE)
  then show ?thesis by simp
qed

lemma silent_step:
  assumes "silent cdc channel before w"
  shows "silent cdc channel before (after_reads cdc channel 1 w)"
  unfolding silent_def
proof
  fix n
  from assms have "fst (read_results w (reads_done w + Suc n)) = 0 \<and>
          msg_received cdc channel (codec (after_reads cdc channel (Suc n) w)) = before"
    unfolding silent_def by (rule allE)
  then show "fst (read_results (after_reads cdc channel 1 w)
                    (reads_done (after_reads cdc channel 1 w) + n)) = 0 \<and>
          msg_received cdc channel
            (codec (after_reads cdc channel n (after_reads cdc channel 1 w))) = before"
    by (simp add: async_read_some_def)
qed

lemma wait_loop_not_silent:
  "wait_loop cdc channel before w = Some y \<Longrightarrow> \<not> silent cdc channel before w"
  apply (erule wait_loop.raw_induct
      [where P = "\<lambda>cdc channel before w y. \<not> silent cdc channel before w", rotated])
  subgoal premises prems for loop cdc channel before w y
  proof
    assume quiet: "silent cdc channel before w"
    from silent_now [OF quiet] prems(2)
    have "loop cdc channel before (after_reads cdc channel 1 w) = Some y"
      by (simp add: async_read_some_def is_set_def)
    then have "\<not> silent cdc channel before (after_reads cdc channel 1 w)"
      by (rule prems(1))
    with silent_step [OF quiet] show False by simp
  qed
  done

lemma wait_loop_diverges:
  "silent cdc channel before w \<Longrightarrow> wait_loop cdc channel before w = None"
  using wait_loop_not_silent [of cdc channel before w] by (cases "wait_loop cdc channel before w") auto

lemma after_reads_fields:
  "reads_done (after_reads cdc channel n w) = reads_done w + n"
  "read_results (after_reads cdc channel n w) = read_results w"
  "write_results (after_reads cdc channel n w) = write_results w"
  "written (after_reads cdc channel n w) = written w"
  by (induction n arbitrary: w) (simp_all add: async_read_some_def)

lemma after_reads_add:
  "after_reads cdc channel (m + n) w = after_reads cdc channel n (after_reads cdc channel m w)"
  by (induction m arbitrary: w) simp_all

lemma wait_loop_after_reads:
  "(\<forall>j<n. fst (read_results w (reads_done w + j)) = 0 \<and>
           msg_received cdc channel (codec (after_reads cdc channel j w)) = before) \<Longrightarrow>
   wait_loop cdc channel before w = wait_loop cdc channel before (after_reads cdc channel n w)"
proof (induction n arbitrary: w)
  case 0
  then show ?case by simp
next
  case (Suc n)
  from Suc.prems [rule_format, of 0]
  have now: "msg_received cdc channel (codec w) = before"
    and ok: "fst (read_results w (reads_done w)) = 0"
    by simp_all
  let ?w = "after_reads cdc channel 1 w"
  have "\<forall>j<n. fst (read_results ?w (reads_done ?w + j)) = 0 \<and>
           msg_received cdc channel (codec (after_reads cdc channel j ?w)) = before"
  proof (intro allI impI)
    fix j assume "j < n"
    then have "Suc j < Suc n" by simp
    from Suc.prems [rule_format, OF this]
    show "fst (read_results ?w (reads_done ?w + j)) = 0 \<and>
           msg_received cdc channel (codec (after_reads cdc channel j ?w)) = before"
      by (simp add: async_read_some_def)
  qed
  then have "wait_loop cdc channel before ?w =
             wait_loop cdc channel before (after_reads cdc channel n ?w)"
    by (rule Suc.IH)
  with wait_loop_read_ok [OF now ok] show ?case
    by simp
qed

text \<open>What a returning wait has done: partial correctness, by fixpoint induction.\<close>

lemma wait_loop_returns:
  "wait_loop cdc channel before w = Some y \<Longrightarrow>
   (\<exists>n. (\<forall>j<n. fst (read_results w (reads_done w + j)) = 0 \<and>
                msg_received cdc channel (codec (after_reads cdc channel j w)) = before) \<and>
        (msg_received cdc channel (codec (after_reads cdc channel n w)) \<noteq> before \<and>
           y = (End_of_body, after_reads cdc channel n w)
         \<or> msg_received cdc channel (codec (after_reads cdc channel n w)) = before \<and>
           fst (read_results w (reads_done w + n)) \<noteq> 0 \<and>
           y = (Co_return (make_unexpected (Error_code (fst (read_results w (reads_done w + n))) asio_category)),
                (after_reads cdc channel n w)\<lparr>reads_done := Suc (reads_done w + n)\<rparr>)))"
  (is "_ \<Longrightarrow> ?Q cdc channel before w y")
  apply (erule wait_loop.raw_induct [where P = "?Q", rotated])
  subgoal premises prems for loop cdc channel before w y
  proof (cases "msg_received cdc channel (codec w) = before")
    case False
    with prems(2) have "y = (End_of_body, w)" by simp
    with False show ?thesis
      by (intro exI [of _ 0]) simp
  next
    case now: True
    show ?thesis
    proof (cases "fst (read_results w (reads_done w)) = 0")
      case False
      with now prems(2) have "y = (Co_return (make_unexpected (Error_code (fst (read_results w (reads_done w))) asio_category)),
                w\<lparr>reads_done := Suc (reads_done w)\<rparr>)"
        by (simp add: async_read_some_def is_set_def)
      with now False show ?thesis
        by (intro exI [of _ 0]) simp
    next
      case ok: True
      let ?w = "after_reads cdc channel 1 w"
      from now ok prems(2) have "loop cdc channel before ?w = Some y"
        by (simp add: async_read_some_def is_set_def)
      then have "?Q cdc channel before ?w y"
        by (rule prems(1))
      then obtain n where
        steps: "\<forall>j<n. fst (read_results ?w (reads_done ?w + j)) = 0 \<and>
                msg_received cdc channel (codec (after_reads cdc channel j ?w)) = before"
        and last: "msg_received cdc channel (codec (after_reads cdc channel n ?w)) \<noteq> before \<and>
           y = (End_of_body, after_reads cdc channel n ?w)
         \<or> msg_received cdc channel (codec (after_reads cdc channel n ?w)) = before \<and>
           fst (read_results ?w (reads_done ?w + n)) \<noteq> 0 \<and>
           y = (Co_return (make_unexpected (Error_code (fst (read_results ?w (reads_done ?w + n))) asio_category)),
                (after_reads cdc channel n ?w)\<lparr>reads_done := Suc (reads_done ?w + n)\<rparr>)"
        by blast
      have "\<forall>j<Suc n. fst (read_results w (reads_done w + j)) = 0 \<and>
                msg_received cdc channel (codec (after_reads cdc channel j w)) = before"
      proof (intro allI impI)
        fix j assume "j < Suc n"
        show "fst (read_results w (reads_done w + j)) = 0 \<and>
                msg_received cdc channel (codec (after_reads cdc channel j w)) = before"
        proof (cases j)
          case 0
          with now ok show ?thesis by simp
        next
          case (Suc i)
          with \<open>j < Suc n\<close> have "i < n" by simp
          with steps have "fst (read_results ?w (reads_done ?w + i)) = 0 \<and>
                msg_received cdc channel (codec (after_reads cdc channel i ?w)) = before"
            by blast
          with Suc show ?thesis by (simp add: async_read_some_def)
        qed
      qed
      moreover from last have "msg_received cdc channel (codec (after_reads cdc channel (Suc n) w)) \<noteq> before \<and>
           y = (End_of_body, after_reads cdc channel (Suc n) w)
         \<or> msg_received cdc channel (codec (after_reads cdc channel (Suc n) w)) = before \<and>
           fst (read_results w (reads_done w + Suc n)) \<noteq> 0 \<and>
           y = (Co_return (make_unexpected (Error_code (fst (read_results w (reads_done w + Suc n))) asio_category)),
                (after_reads cdc channel (Suc n) w)\<lparr>reads_done := Suc (reads_done w + Suc n)\<rparr>)"
        by (simp add: async_read_some_def)
      ultimately show ?thesis
        by (intro exI [of _ "Suc n"]) blast
    qed
  qed
  done

lemma wait_for_next_message_written:
  assumes "wait_for_next_message cdc channel w = Some (r, w')"
  shows "written w' = written w"
proof -
  from assms have "wait_loop cdc channel (msg_received cdc channel (codec w)) w = Some (r, w')"
    by (simp add: wait_for_next_message_def)
  from wait_loop_returns [OF this] show ?thesis
    by (auto simp: after_reads_fields)
qed

section \<open>What init sends\<close>

lemma first_failure:
  fixes f :: "nat \<Rightarrow> int"
  shows "(\<forall>j<n. f j = 0) \<or> (\<exists>k<n. f k \<noteq> 0 \<and> (\<forall>j<k. f j = 0))"
proof (induction n)
  case 0
  then show ?case by simp
next
  case (Suc n)
  then show ?case
  proof
    assume ok: "\<forall>j<n. f j = 0"
    show ?thesis
    proof (cases "f n = 0")
      case True
      with ok have "\<forall>j<Suc n. f j = 0" by (simp add: less_Suc_eq)
      then show ?thesis ..
    next
      case False
      with ok have "n < Suc n \<and> f n \<noteq> 0 \<and> (\<forall>j<n. f j = 0)" by simp
      then show ?thesis by blast
    qed
  next
    assume "\<exists>k<n. f k \<noteq> 0 \<and> (\<forall>j<k. f j = 0)"
    then obtain k where "k < n" "f k \<noteq> 0" "\<forall>j<k. f j = 0" by blast
    then have "k < Suc n \<and> f k \<noteq> 0 \<and> (\<forall>j<k. f j = 0)" by simp
    then show ?thesis by blast
  qed
qed

lemma length_init_messages: "length init_messages = 11"
  by (simp add: init_messages_def)

lemma init_write_failed:
  fixes w :: "('f::{zero,one}, 'c) world"
  assumes "k < 11" and "\<forall>j<k. write_results w (length (written w) + j) = 0"
    and "write_results w (length (written w) + k) \<noteq> 0"
  shows "init cdc w =
     Some (Co_return (make_unexpected (make_error_code FailedWrite)),
           w\<lparr>written := written w @ take (Suc k) init_messages\<rparr>)"
proof -
  from assms(1) have "k < length (init_messages :: 'f mavlink_message list)"
    by (simp add: length_init_messages)
  from send_each_fail [OF this assms(2,3)] assms(3) show ?thesis
    by (simp add: init_send_each is_set_def init_after_loop_def)
qed

lemma init_writes_ok:
  fixes w :: "('f::{zero,one}, 'c) world"
  assumes "\<forall>j<11. write_results w (length (written w) + j) = 0"
  shows "init cdc w =
     (case wait_for_next_message cdc m_heartbeat_channel (w\<lparr>written := written w @ init_messages\<rparr>) of
        None \<Rightarrow> None
      | Some (ignored, w'') \<Rightarrow>
          if channel_buffer_msgid cdc m_heartbeat_channel (codec w'') \<noteq> MAVLINK_MSG_ID_COMMAND_ACK
          then Some (Co_return (make_unexpected (make_error_code NoCommandAck)), w'')
          else Some (End_of_body, w''))"
proof -
  from assms have "\<forall>j<length (init_messages :: 'f mavlink_message list).
      write_results w (length (written w) + j) = 0"
    by (simp add: length_init_messages)
  from send_each_ok [OF this] show ?thesis
    by (simp add: init_send_each is_set_def)
qed

lemma init_written:
  fixes w :: "('f::{zero,one}, 'c) world"
  assumes "init cdc w = Some (r, w')"
  shows "\<exists>n. 0 < n \<and> n \<le> 11 \<and> written w' = written w @ take n init_messages \<and>
             (\<forall>j<n - 1. write_results w (length (written w) + j) = 0) \<and>
             (n < 11 \<longrightarrow> write_results w (length (written w) + (n - 1)) \<noteq> 0)"
proof -
  from first_failure [of 11 "\<lambda>j. write_results w (length (written w) + j)"]
  show ?thesis
  proof
    assume ok: "\<forall>j<11. write_results w (length (written w) + j) = 0"
    from assms obtain ignored where
      "wait_for_next_message cdc m_heartbeat_channel (w\<lparr>written := written w @ init_messages\<rparr>) =
         Some (ignored, w')"
      unfolding init_writes_ok [OF ok]
      by (auto split: option.splits if_splits)
    from wait_for_next_message_written [OF this]
    have "written w' = written w @ take 11 init_messages"
      by (simp add: length_init_messages)
    with ok show ?thesis
      by (intro exI [of _ 11]) simp
  next
    assume "\<exists>k<11. write_results w (length (written w) + k) \<noteq> 0 \<and>
            (\<forall>j<k. write_results w (length (written w) + j) = 0)"
    then obtain k where k: "k < 11" "write_results w (length (written w) + k) \<noteq> 0"
        "\<forall>j<k. write_results w (length (written w) + j) = 0"
      by blast
    from assms init_write_failed [OF k(1) k(3) k(2), of cdc]
    have "written w' = written w @ take (Suc k) init_messages"
      by auto
    with k show ?thesis
      by (intro exI [of _ "Suc k"]) simp
  qed
qed

lemma take_10_init_messages:
  "take 10 (init_messages :: ('f::{zero,one}) mavlink_message list) =
     map (\<lambda>name. PARAM_SET m_system_id m_my_id m_heartbeat_channel m_system_id m_component_id
                    name 0 MAV_PARAM_TYPE_INT16)
       [''SR0_RAW_SENS'', ''SR0_EXT_STAT'', ''SR0_RC_CHAN'', ''SR0_RAW_CTRL'', ''SR0_POSITION'',
        ''SR0_EXTRA1'', ''SR0_EXTRA2'', ''SR0_EXTRA3'', ''SR0_PARAMS'', ''SR0_ADSB'']"
  by (simp add: init_messages_def set_param_curried_def)

section \<open>What the wait returns\<close>

text \<open>Runs of the wait on the toy codec.\<close>

lemma toy_wait_frame:
  "wait_for_next_message toy_codec channel
     ((toy_world ws (\<lambda>n. (0, [0xFD, c])) n m)\<lparr>written := msgs\<rparr>) =
   Some (End_of_body,
     \<lparr>write_results = ws, read_results = (\<lambda>n. (0, [0xFD, c])), written = msgs,
      reads_done = 1,
      codec = (\<lambda>ch. \<lparr>frames = n, last_msgid = m, in_frame = False\<rparr>)
                (channel := \<lparr>frames = Suc n, last_msgid = unat c, in_frame = False\<rparr>)\<rparr>)"
  by (simp add: wait_for_next_message_def toy_world_def toy_codec_def wait_loop_read_ok
      wait_loop_done toy_parse_char_def async_read_some_def)

lemma toy_wait_read_error:
  "e \<noteq> 0 \<Longrightarrow>
   wait_for_next_message toy_codec channel
     ((toy_world ws (\<lambda>n. (e, [])) n m)\<lparr>written := msgs\<rparr>) =
   Some (Co_return (make_unexpected (Error_code e asio_category)),
     \<lparr>write_results = ws, read_results = (\<lambda>n. (e, [])), written = msgs,
      reads_done = 1,
      codec = (\<lambda>ch. \<lparr>frames = n, last_msgid = m, in_frame = False\<rparr>)\<rparr>)"
  by (simp add: wait_for_next_message_def toy_world_def toy_codec_def wait_loop_read_error)

lemma wait_for_next_message_returns:
  assumes "wait_for_next_message cdc channel w = Some (r, w')"
  shows "(r = End_of_body \<and> msg_received cdc channel (codec w') \<noteq> msg_received cdc channel (codec w)) \<or>
         (\<exists>v. v \<noteq> 0 \<and> r = Co_return (make_unexpected (Error_code v asio_category)))"
proof -
  from assms have "wait_loop cdc channel (msg_received cdc channel (codec w)) w = Some (r, w')"
    by (simp add: wait_for_next_message_def)
  from wait_loop_returns [OF this] show ?thesis
    by auto
qed

lemma wait_for_next_message_read_fails:
  assumes ok: "\<forall>j<n. fst (read_results w (reads_done w + j)) = 0"
    and same: "\<forall>j\<le>n. msg_received cdc channel (codec (after_reads cdc channel j w)) =
                      msg_received cdc channel (codec w)"
    and failed: "fst (read_results w (reads_done w + n)) \<noteq> 0"
  shows "wait_for_next_message cdc channel w =
    Some (Co_return (make_unexpected (Error_code (fst (read_results w (reads_done w + n))) asio_category)),
          (after_reads cdc channel n w)\<lparr>reads_done := Suc (reads_done w + n)\<rparr>)"
proof -
  let ?before = "msg_received cdc channel (codec w)"
  let ?w = "after_reads cdc channel n w"
  from ok same have "\<forall>j<n. fst (read_results w (reads_done w + j)) = 0 \<and>
      msg_received cdc channel (codec (after_reads cdc channel j w)) = ?before"
    by simp
  then have "wait_loop cdc channel ?before w = wait_loop cdc channel ?before ?w"
    by (rule wait_loop_after_reads)
  moreover from same have "msg_received cdc channel (codec ?w) = ?before"
    by simp
  moreover from failed have "fst (read_results ?w (reads_done ?w)) \<noteq> 0"
    by (simp add: after_reads_fields)
  ultimately show ?thesis
    by (simp add: wait_for_next_message_def wait_loop_read_error after_reads_fields)
qed

lemma toy_noise_after_reads:
  fixes w :: "('f, 8 word \<Rightarrow> toy_channel) world"
  assumes "read_results w = (\<lambda>n. (0, [0]))" and "\<not> in_frame (codec w channel)"
  shows "codec (after_reads toy_codec channel n w) = codec w"
  using assms
proof (induction n arbitrary: w)
  case 0
  then show ?case by simp
next
  case (Suc n)
  let ?w = "after_reads toy_codec channel 1 w"
  from Suc.prems have one: "codec ?w = codec w"
    by (simp add: async_read_some_def toy_codec_def toy_parse_char_def)
  moreover from Suc.prems have "read_results ?w = (\<lambda>n. (0, [0]))"
    by (simp only: after_reads_fields)
  moreover from one Suc.prems have "\<not> in_frame (codec ?w channel)"
    by simp
  ultimately have "codec (after_reads toy_codec channel n ?w) = codec w"
    using Suc.IH [of ?w] by simp
  then show ?case by simp
qed

lemma toy_noise_silent:
  "silent toy_codec channel n (toy_world ws (\<lambda>n. (0, [0])) n m)"
proof -
  let ?w = "toy_world ws (\<lambda>n. (0, [0])) n m"
  have "read_results ?w = (\<lambda>n. (0, [0]))" and "\<not> in_frame (codec ?w channel)"
    by (simp_all add: toy_world_def)
  then have "codec (after_reads toy_codec channel k ?w) = codec ?w" for k
    by (rule toy_noise_after_reads)
  then show ?thesis
    by (simp add: silent_def) (simp add: toy_world_def toy_codec_def)
qed

lemma toy_noise_never_returns:
  "wait_for_next_message toy_codec channel (toy_world ws (\<lambda>n. (0, [0])) n m) = None"
proof -
  have "msg_received toy_codec channel (codec (toy_world ws (\<lambda>n. (0, [0])) n m)) = n"
    by (simp add: toy_world_def toy_codec_def)
  with toy_noise_silent [where channel = channel and n = n and ws = ws and m = m] show ?thesis
    by (simp add: wait_for_next_message_def wait_loop_diverges)
qed

section \<open>The heartbeat\<close>

lemma heartbeat_eq:
  "heartbeat w =
     (if write_results w (length (written w)) \<noteq> 0
      then Co_return (make_unexpected (make_error_code FailedWrite)) else End_of_body,
      w\<lparr>written := written w @ [heartbeat_message]\<rparr>)"
  by (simp add: heartbeat_def send_message_def is_set_def)

section \<open>The type masks\<close>

lemma marked_valid_USE_POSITION:
  "marked_valid (ucast USE_POSITION) f \<longleftrightarrow> f = X \<or> f = Y"
  by (cases f) (simp_all add: marked_valid_def USE_POSITION_def)

lemma marked_valid_USE_VELOCITY:
  "marked_valid (ucast USE_VELOCITY) f \<longleftrightarrow> f = VX \<or> f = VY"
  by (cases f) (simp_all add: marked_valid_def USE_VELOCITY_def)

lemma marked_valid_USE_YAW:
  "marked_valid (ucast USE_YAW) f \<longleftrightarrow> f = YAW"
  by (cases f) (simp_all add: marked_valid_def USE_YAW_def)

section \<open>The claims\<close>

text \<open>
  C1. In every run of \<open>init\<close> the eleven messages are sent in the order of
  \<open>init_messages\<close> (the ten parameter settings, then the reboot command). When the
  first \<open>k\<close> writes succeed and the next one fails, be it a parameter setting or the
  reboot command, \<open>init\<close> returns \<open>FailedWrite\<close>, and the world it leaves differs from
  the one it started in by exactly the first \<open>k + 1\<close> messages handed to the port: no
  later message is sent, no read is made and the codec is untouched, so the wait for the
  acknowledgment is never entered. When all eleven writes succeed, the wait is entered
  with exactly the eleven messages sent (\<open>init\<close> returns if and only if that wait
  does), and a returning \<open>init\<close> has sent exactly the eleven messages.
\<close>

theorem init_sends_in_order:
  fixes w :: "('f::{zero,one}, 'c) world"
  assumes "\<forall>j<k. write_results w (length (written w) + j) = 0"
  shows "(k < 11 \<and> write_results w (length (written w) + k) \<noteq> 0 \<longrightarrow>
            init cdc w =
              Some (Co_return (make_unexpected (make_error_code FailedWrite)),
                    w\<lparr>written := written w @ take (Suc k) init_messages\<rparr>)) \<and>
         (11 \<le> k \<and> init cdc w = Some (r, w') \<longrightarrow> written w' = written w @ init_messages) \<and>
         (11 \<le> k \<longrightarrow>
            (init cdc w = None) =
            (wait_for_next_message cdc m_heartbeat_channel
               (w\<lparr>written := written w @ init_messages\<rparr>) = None))"
proof (intro conjI impI)
  assume "k < 11 \<and> write_results w (length (written w) + k) \<noteq> 0"
  with assms show "init cdc w =
              Some (Co_return (make_unexpected (make_error_code FailedWrite)),
                    w\<lparr>written := written w @ take (Suc k) init_messages\<rparr>)"
    by (simp add: init_write_failed)
next
  assume *: "11 \<le> k \<and> init cdc w = Some (r, w')"
  with assms have ok: "\<forall>j<11. write_results w (length (written w) + j) = 0"
    by simp
  from * obtain ignored where
    "wait_for_next_message cdc m_heartbeat_channel (w\<lparr>written := written w @ init_messages\<rparr>) =
       Some (ignored, w')"
    unfolding init_writes_ok [OF ok]
    by (auto split: option.splits if_splits)
  from wait_for_next_message_written [OF this]
  show "written w' = written w @ init_messages"
    by simp
next
  assume "11 \<le> k"
  with assms have ok: "\<forall>j<11. write_results w (length (written w) + j) = 0"
    by simp
  show "(init cdc w = None) =
      (wait_for_next_message cdc m_heartbeat_channel
         (w\<lparr>written := written w @ init_messages\<rparr>) = None)"
    unfolding init_writes_ok [OF ok]
    by (simp split: option.splits)
qed

theorem init_sends_in_order_witness:
  "init toy_codec (toy_world (\<lambda>n. if n = 10 then 5 else 0) (\<lambda>n. (0, [])) 0 0) =
     Some (Co_return (make_unexpected (make_error_code FailedWrite)),
           (toy_world (\<lambda>n. if n = 10 then 5 else 0) (\<lambda>n. (0, [])) 0 0)
             \<lparr>written := init_messages\<rparr>) \<and>
   (\<exists>r w'. init toy_codec (toy_world (\<lambda>n. 0) (\<lambda>n. (0, [0xFD, 77])) 0 0) = Some (r, w') \<and>
           written w' = init_messages)"
proof -
  let ?a = "toy_world (\<lambda>n. if n = 10 then 5 else 0) (\<lambda>n. (0, [])) 0 0"
  let ?b = "toy_world (\<lambda>n. 0) (\<lambda>n. (0, [0xFD, 77])) 0 0"
  have "\<forall>j<10. write_results ?a (length (written ?a) + j) = 0"
    by (simp add: toy_world_def)
  from init_sends_in_order [OF this, of toy_codec]
  have first: "init toy_codec ?a =
     Some (Co_return (make_unexpected (make_error_code FailedWrite)), ?a\<lparr>written := init_messages\<rparr>)"
    by (simp add: toy_world_def length_init_messages)
  have ok: "\<forall>j<11. write_results ?b (length (written ?b) + j) = 0"
    by (simp add: toy_world_def)
  have "written ?b = []"
    by (simp add: toy_world_def)
  then have "\<exists>r w'. init toy_codec ?b = Some (r, w')"
    by (simp add: init_writes_ok [OF ok] toy_wait_frame split: if_splits)
  then obtain r w' where ret: "init toy_codec ?b = Some (r, w')"
    by blast
  with init_sends_in_order [OF ok, of toy_codec r w'] \<open>written ?b = []\<close>
  have "written w' = init_messages"
    by simp
  with first ret show ?thesis
    by blast
qed

text \<open>
  C4. When the eleven writes of \<open>init\<close> succeed and the wait on the heartbeat channel
  then returns with a message in the channel's buffer whose id is not that of a command
  acknowledgment, \<open>init\<close> returns \<open>NoCommandAck\<close>.
\<close>

theorem init_no_command_ack:
  fixes w :: "('f::{zero,one}, 'c) world"
  assumes "\<forall>j<11. write_results w (length (written w) + j) = 0"
    and "wait_for_next_message cdc m_heartbeat_channel (w\<lparr>written := written w @ init_messages\<rparr>) =
           Some (End_of_body, w'')"
    and "channel_buffer_msgid cdc m_heartbeat_channel (codec w'') \<noteq> MAVLINK_MSG_ID_COMMAND_ACK"
  shows "init cdc w = Some (Co_return (make_unexpected (make_error_code NoCommandAck)), w'')"
  using assms(2,3) by (simp add: init_writes_ok [OF assms(1)])

theorem init_no_command_ack_witness:
  "init toy_codec (toy_world (\<lambda>n. 0) (\<lambda>n. (0, [0xFD, 0])) 0 0) =
     Some (Co_return (make_unexpected (make_error_code NoCommandAck)),
       \<lparr>write_results = (\<lambda>n. 0), read_results = (\<lambda>n. (0, [0xFD, 0])),
        written = init_messages, reads_done = 1,
        codec = (\<lambda>ch. \<lparr>frames = 0, last_msgid = 0, in_frame = False\<rparr>)
                  (m_heartbeat_channel := \<lparr>frames = 1, last_msgid = 0, in_frame = False\<rparr>)\<rparr>)"
proof -
  let ?b = "toy_world (\<lambda>n. 0) (\<lambda>n. (0, [0xFD, 0])) 0 0"
  have ok: "\<forall>j<11. write_results ?b (length (written ?b) + j) = 0"
    by (simp add: toy_world_def)
  have start: "written ?b = []"
    by (simp add: toy_world_def)
  let ?c = "\<lparr>write_results = (\<lambda>n. 0), read_results = (\<lambda>n. (0, [0xFD, 0])),
        written = init_messages, reads_done = 1,
        codec = (\<lambda>ch. \<lparr>frames = 0, last_msgid = 0, in_frame = False\<rparr>)
                  (m_heartbeat_channel := \<lparr>frames = 1, last_msgid = 0, in_frame = False\<rparr>)\<rparr>
        :: (real, 8 word \<Rightarrow> toy_channel) world"
  have waited: "wait_for_next_message toy_codec m_heartbeat_channel
      (?b\<lparr>written := written ?b @ init_messages\<rparr>) = Some (End_of_body, ?c)"
    by (simp add: start toy_wait_frame)
  have "channel_buffer_msgid toy_codec m_heartbeat_channel (codec ?c) \<noteq> MAVLINK_MSG_ID_COMMAND_ACK"
    by (simp add: toy_codec_def MAVLINK_MSG_ID_COMMAND_ACK_def)
  with ok waited show ?thesis
    by (rule init_no_command_ack)
qed

text \<open>
  C3 (amended). \<open>wait_for_next_message\<close> takes no deadline and has no timeout. It never
  returns \<open>ReceiveTimeout\<close>; when it returns without an error (it has left its loop and
  reached the end of its body), the channel's counter of received messages differs from
  its value at the call; and when nothing arrives (every read
  succeeds and none of them changes the counter), the call never returns.
\<close>

theorem wait_for_next_message_no_deadline:
  "(wait_for_next_message cdc channel w = Some (r, w') \<longrightarrow>
      r \<noteq> Co_return (make_unexpected (make_error_code ReceiveTimeout)) \<and>
      (r = End_of_body \<longrightarrow>
         msg_received cdc channel (codec w') \<noteq> msg_received cdc channel (codec w))) \<and>
   (silent cdc channel (msg_received cdc channel (codec w)) w \<longrightarrow>
      wait_for_next_message cdc channel w = None)"
proof (intro conjI impI)
  assume ret: "wait_for_next_message cdc channel w = Some (r, w')"
  from wait_for_next_message_returns [OF ret]
  show "r \<noteq> Co_return (make_unexpected (make_error_code ReceiveTimeout))"
    by (auto simp: make_error_code_def)
  assume "r = End_of_body"
  with wait_for_next_message_returns [OF ret]
  show "msg_received cdc channel (codec w') \<noteq> msg_received cdc channel (codec w)"
    by auto
next
  assume "silent cdc channel (msg_received cdc channel (codec w)) w"
  then show "wait_for_next_message cdc channel w = None"
    by (simp add: wait_for_next_message_def wait_loop_diverges)
qed

theorem wait_for_next_message_no_deadline_witness:
  "(\<exists>w'. wait_for_next_message toy_codec m_heartbeat_channel
           (toy_world (\<lambda>n. 0) (\<lambda>n. (0, [0xFD, 77])) 0 0) = Some (End_of_body, w') \<and>
         msg_received toy_codec m_heartbeat_channel (codec w') \<noteq> 0) \<and>
   wait_for_next_message toy_codec m_targets_channel
     (toy_world (\<lambda>n. 0) (\<lambda>n. (0, [0])) 3 0) = None"
proof -
  let ?a = "toy_world (\<lambda>n. 0) (\<lambda>n. (0, [0xFD, 77])) 0 0 :: (real, 8 word \<Rightarrow> toy_channel) world"
  let ?b = "toy_world (\<lambda>n. 0) (\<lambda>n. (0, [0])) 3 0 :: (real, 8 word \<Rightarrow> toy_channel) world"
  have "?a = ?a\<lparr>written := []\<rparr>"
    by (simp add: toy_world_def)
  then obtain w' where ret: "wait_for_next_message toy_codec m_heartbeat_channel ?a = Some (End_of_body, w')"
    using toy_wait_frame [where channel = m_heartbeat_channel and ws = "\<lambda>n. 0" and c = 77
        and n = 0 and m = 0 and msgs = "[]"] by simp
  have zero: "msg_received toy_codec m_heartbeat_channel (codec ?a) = 0"
    by (simp add: toy_world_def toy_codec_def)
  from wait_for_next_message_no_deadline [of toy_codec m_heartbeat_channel ?a End_of_body w'] ret zero
  have "msg_received toy_codec m_heartbeat_channel (codec w') \<noteq> 0"
    by simp
  moreover have three: "msg_received toy_codec m_targets_channel (codec ?b) = 3"
    by (simp add: toy_world_def toy_codec_def)
  from wait_for_next_message_no_deadline [of toy_codec m_targets_channel ?b]
    toy_noise_silent [where channel = m_targets_channel and n = 3 and ws = "\<lambda>n. 0" and m = 0]
  have "wait_for_next_message toy_codec m_targets_channel ?b = None"
    by (simp add: three)
  ultimately show ?thesis
    using ret by blast
qed

theorem wait_for_next_message_hangs:
  "wait_for_next_message toy_codec m_heartbeat_channel
     (toy_world (\<lambda>n. 0) (\<lambda>n. (0, [0])) 0 0) = None"
  by (rule toy_noise_never_returns)

text \<open>
  C6 (amended). When a read of the serial port fails while \<open>wait_for_next_message\<close> is
  waiting (the reads before it succeeded without changing the channel's counter), the
  call returns at once with an error and reads no further. The error is not
  \<open>ReceiveTimeout\<close>: the function has no timeout.
\<close>

theorem wait_for_next_message_read_failure:
  assumes "\<forall>j<n. fst (read_results w (reads_done w + j)) = 0"
    and "\<forall>j\<le>n. msg_received cdc channel (codec (after_reads cdc channel j w)) =
                msg_received cdc channel (codec w)"
    and "fst (read_results w (reads_done w + n)) \<noteq> 0"
  shows "\<exists>e w'. wait_for_next_message cdc channel w = Some (Co_return (make_unexpected e), w') \<and>
           is_set e \<and> e \<noteq> make_error_code ReceiveTimeout \<and>
           reads_done w' = reads_done w + n + 1 \<and>
           codec w' = codec (after_reads cdc channel n w)"
  using assms(3) unfolding wait_for_next_message_read_fails [OF assms]
  by (simp add: is_set_def make_error_code_def)

theorem wait_for_next_message_read_failure_witness:
  "\<exists>e w'. wait_for_next_message toy_codec m_heartbeat_channel
            (toy_world (\<lambda>n. 0) (\<lambda>n. if n = 1 then (5, []) else (0, [0])) 0 0) =
              Some (Co_return (make_unexpected e), w') \<and>
          is_set e \<and> e \<noteq> make_error_code ReceiveTimeout \<and> reads_done w' = 2"
proof -
  let ?a = "toy_world (\<lambda>n. 0) (\<lambda>n. if n = 1 then (5, []) else (0, [0])) 0 0
              :: (real, 8 word \<Rightarrow> toy_channel) world"
  have one: "codec (after_reads toy_codec m_heartbeat_channel 1 ?a) = codec ?a"
    by (simp add: toy_world_def async_read_some_def toy_codec_def toy_parse_char_def)
  have "\<forall>j<1. fst (read_results ?a (reads_done ?a + j)) = 0"
    by (simp add: toy_world_def)
  moreover have "\<forall>j\<le>1. msg_received toy_codec m_heartbeat_channel
        (codec (after_reads toy_codec m_heartbeat_channel j ?a)) =
      msg_received toy_codec m_heartbeat_channel (codec ?a)"
    using one by (simp add: le_Suc_eq)
  moreover have "fst (read_results ?a (reads_done ?a + 1)) \<noteq> 0"
    by (simp add: toy_world_def)
  ultimately have "\<exists>e w'. wait_for_next_message toy_codec m_heartbeat_channel ?a =
        Some (Co_return (make_unexpected e), w') \<and> is_set e \<and> e \<noteq> make_error_code ReceiveTimeout \<and>
        reads_done w' = reads_done ?a + 1 + 1 \<and>
        codec w' = codec (after_reads toy_codec m_heartbeat_channel 1 ?a)"
    by (rule wait_for_next_message_read_failure)
  moreover have "reads_done ?a = 0"
    by (simp add: toy_world_def)
  ultimately show ?thesis
    by auto
qed

theorem wait_for_next_message_raw_error:
  "wait_for_next_message toy_codec m_heartbeat_channel
     (toy_world (\<lambda>n. 0) (\<lambda>n. (5, [])) 0 0 :: (real, 8 word \<Rightarrow> toy_channel) world) =
     Some (Co_return (make_unexpected (Error_code 5 asio_category)),
           (toy_world (\<lambda>n. 0) (\<lambda>n. (5, [])) 0 0)\<lparr>reads_done := 1\<rparr>) \<and>
   Error_code 5 asio_category \<noteq> make_error_code FailedRead"
  using toy_wait_read_error [where e = 5 and channel = m_heartbeat_channel and ws = "\<lambda>n. 0"
      and n = 0 and m = 0 and msgs = "[]"]
  by (simp add: toy_world_def make_error_code_def)

text \<open>
  C2 (amended). Every position target built by \<open>set_target_position_local\<close> carries the
  mask \<open>USE_POSITION\<close>, which marks exactly the x and y position fields as valid; the
  three position fields hold the caller's coordinates; and every velocity, acceleration,
  yaw and yaw rate field holds the constant \<open>INVALID\<close>, which is zero.
\<close>

theorem position_target_mask_and_fields:
  fixes xyz0 xyz1 xyz2 :: "'f::zero" and w :: "('f, 'c) world"
  shows "snd (set_target_position_local uptime (xyz0, xyz1, xyz2) w) =
           w\<lparr>written := written w @ [position_target uptime (xyz0, xyz1, xyz2)]\<rparr> \<and>
         type_mask (position_target uptime (xyz0, xyz1, xyz2)) = ucast USE_POSITION \<and>
         {f. marked_valid (type_mask (position_target uptime (xyz0, xyz1, xyz2))) f} = {X, Y} \<and>
         map (field_of (position_target uptime (xyz0, xyz1, xyz2))) [X, Y, Z] =
           [xyz0, xyz1, xyz2] \<and>
         map (field_of (position_target uptime (xyz0, xyz1, xyz2)))
             [VX, VY, VZ, AFX, AFY, AFZ, YAW, YAW_RATE] =
           replicate 8 INVALID \<and>
         (INVALID :: 'f) = 0"
proof -
  have "{f. marked_valid (ucast USE_POSITION) f} = {X, Y}"
    by (auto simp: marked_valid_USE_POSITION)
  then show ?thesis
    by (simp add: set_target_position_local_def send_message_def position_target_def
        INVALID_def numeral_eq_Suc)
qed

theorem position_target_z_ignored_sentinel_zero:
  "\<not> marked_valid (type_mask (position_target 0 (1, 2, 3 :: real))) Z \<and>
   map (field_of (position_target 0 (1, 2, 3 :: real)))
     [VX, VY, VZ, AFX, AFY, AFZ, YAW, YAW_RATE] = [0, 0, 0, 0, 0, 0, 0, 0]"
  by (simp add: position_target_def marked_valid_USE_POSITION INVALID_def)

text \<open>
  C10. In every run, \<open>init\<close> hands to the port, in this order and up to the first failed
  write, the parameter settings with value 0 and type \<open>MAV_PARAM_TYPE_INT16\<close> for
  \<open>SR0_RAW_SENS\<close>, \<open>SR0_EXT_STAT\<close>, \<open>SR0_RC_CHAN\<close>, \<open>SR0_RAW_CTRL\<close>, \<open>SR0_POSITION\<close>,
  \<open>SR0_EXTRA1\<close>, \<open>SR0_EXTRA2\<close>, \<open>SR0_EXTRA3\<close>, \<open>SR0_PARAMS\<close> and \<open>SR0_ADSB\<close>, and
  then the reboot command. Every run is covered: either some write among the eleven is
  the first to fail, and \<open>init\<close> returns \<open>FailedWrite\<close> having handed over exactly the
  messages up to that one; or all eleven writes succeed, and \<open>init\<close> goes on as the wait
  for the acknowledgment does in the world in which all ten parameter settings and the
  reboot command have been handed over, also when that wait never returns.
\<close>

theorem init_parameter_commands:
  fixes w :: "('f::{zero,one}, 'c) world"
  shows "\<exists>k\<le>11.
     (\<forall>j<k. write_results w (length (written w) + j) = 0) \<and>
     (k < 11 \<longrightarrow>
        write_results w (length (written w) + k) \<noteq> 0 \<and>
        init cdc w =
          Some (Co_return (make_unexpected (make_error_code FailedWrite)),
                w\<lparr>written := written w @
                   take (Suc k)
                     (map (\<lambda>name. PARAM_SET m_system_id m_my_id m_heartbeat_channel
                                    m_system_id m_component_id name 0 MAV_PARAM_TYPE_INT16)
                        [''SR0_RAW_SENS'', ''SR0_EXT_STAT'', ''SR0_RC_CHAN'', ''SR0_RAW_CTRL'',
                         ''SR0_POSITION'', ''SR0_EXTRA1'', ''SR0_EXTRA2'', ''SR0_EXTRA3'',
                         ''SR0_PARAMS'', ''SR0_ADSB''] @
                      [reboot_command])\<rparr>)) \<and>
     (k = 11 \<longrightarrow>
        init cdc w =
          (case wait_for_next_message cdc m_heartbeat_channel
                  (w\<lparr>written := written w @
                      map (\<lambda>name. PARAM_SET m_system_id m_my_id m_heartbeat_channel
                                    m_system_id m_component_id name 0 MAV_PARAM_TYPE_INT16)
                        [''SR0_RAW_SENS'', ''SR0_EXT_STAT'', ''SR0_RC_CHAN'', ''SR0_RAW_CTRL'',
                         ''SR0_POSITION'', ''SR0_EXTRA1'', ''SR0_EXTRA2'', ''SR0_EXTRA3'',
                         ''SR0_PARAMS'', ''SR0_ADSB''] @
                      [reboot_command]\<rparr>) of
             None \<Rightarrow> None
           | Some (ignored, w'') \<Rightarrow>
               Some (if channel_buffer_msgid cdc m_heartbeat_channel (codec w'') \<noteq>
                          MAVLINK_MSG_ID_COMMAND_ACK
                     then Co_return (make_unexpected (make_error_code NoCommandAck))
                     else End_of_body, w'')))"
proof -
  have all: "map (\<lambda>name. PARAM_SET m_system_id m_my_id m_heartbeat_channel
                                    m_system_id m_component_id name 0 MAV_PARAM_TYPE_INT16)
                        [''SR0_RAW_SENS'', ''SR0_EXT_STAT'', ''SR0_RC_CHAN'', ''SR0_RAW_CTRL'',
                         ''SR0_POSITION'', ''SR0_EXTRA1'', ''SR0_EXTRA2'', ''SR0_EXTRA3'',
                         ''SR0_PARAMS'', ''SR0_ADSB''] @ [reboot_command] =
             (init_messages :: 'f mavlink_message list)"
    by (simp add: init_messages_def set_param_curried_def)
  from first_failure [of 11 "\<lambda>j. write_results w (length (written w) + j)"]
  show ?thesis
    unfolding all append_assoc [symmetric]
  proof
    assume ok: "\<forall>j<11. write_results w (length (written w) + j) = 0"
    have "init cdc w =
          (case wait_for_next_message cdc m_heartbeat_channel
                  (w\<lparr>written := written w @ init_messages\<rparr>) of
             None \<Rightarrow> None
           | Some (ignored, w'') \<Rightarrow>
               Some (if channel_buffer_msgid cdc m_heartbeat_channel (codec w'') \<noteq>
                          MAVLINK_MSG_ID_COMMAND_ACK
                     then Co_return (make_unexpected (make_error_code NoCommandAck))
                     else End_of_body, w''))"
      unfolding init_writes_ok [OF ok] by (simp split: option.splits)
    with ok show "\<exists>k\<le>11.
     (\<forall>j<k. write_results w (length (written w) + j) = 0) \<and>
     (k < 11 \<longrightarrow>
        write_results w (length (written w) + k) \<noteq> 0 \<and>
        init cdc w =
          Some (Co_return (make_unexpected (make_error_code FailedWrite)),
                w\<lparr>written := written w @ take (Suc k) init_messages\<rparr>)) \<and>
     (k = 11 \<longrightarrow>
        init cdc w =
          (case wait_for_next_message cdc m_heartbeat_channel
                  (w\<lparr>written := written w @ init_messages\<rparr>) of
             None \<Rightarrow> None
           | Some (ignored, w'') \<Rightarrow>
               Some (if channel_buffer_msgid cdc m_heartbeat_channel (codec w'') \<noteq>
                          MAVLINK_MSG_ID_COMMAND_ACK
                     then Co_return (make_unexpected (make_error_code NoCommandAck))
                     else End_of_body, w'')))"
      by (intro exI [of _ 11]) simp
  next
    assume "\<exists>k<11. write_results w (length (written w) + k) \<noteq> 0 \<and>
            (\<forall>j<k. write_results w (length (written w) + j) = 0)"
    then obtain k where k: "k < 11" "write_results w (length (written w) + k) \<noteq> 0"
        "\<forall>j<k. write_results w (length (written w) + j) = 0"
      by blast
    from init_write_failed [OF k(1) k(3) k(2), of cdc] k
    show "\<exists>k\<le>11.
     (\<forall>j<k. write_results w (length (written w) + j) = 0) \<and>
     (k < 11 \<longrightarrow>
        write_results w (length (written w) + k) \<noteq> 0 \<and>
        init cdc w =
          Some (Co_return (make_unexpected (make_error_code FailedWrite)),
                w\<lparr>written := written w @ take (Suc k) init_messages\<rparr>)) \<and>
     (k = 11 \<longrightarrow>
        init cdc w =
          (case wait_for_next_message cdc m_heartbeat_channel
                  (w\<lparr>written := written w @ init_messages\<rparr>) of
             None \<Rightarrow> None
           | Some (ignored, w'') \<Rightarrow>
               Some (if channel_buffer_msgid cdc m_heartbeat_channel (codec w'') \<noteq>
                          MAVLINK_MSG_ID_COMMAND_ACK
                     then Co_return (make_unexpected (make_error_code NoCommandAck))
                     else End_of_body, w'')))"
      by (intro exI [of _ k]) simp
  qed
qed

theorem init_parameter_commands_witness:
  "init toy_codec (toy_world (\<lambda>n. if n = 3 then 5 else 0) (\<lambda>n. (0, [])) 0 0) =
     Some (Co_return (make_unexpected (make_error_code FailedWrite)),
       (toy_world (\<lambda>n. if n = 3 then 5 else 0) (\<lambda>n. (0, [])) 0 0)
         \<lparr>written :=
            [set_param_curried ''SR0_RAW_SENS'' 0 MAV_PARAM_TYPE_INT16,
             set_param_curried ''SR0_EXT_STAT'' 0 MAV_PARAM_TYPE_INT16,
             set_param_curried ''SR0_RC_CHAN'' 0 MAV_PARAM_TYPE_INT16,
             set_param_curried ''SR0_RAW_CTRL'' 0 MAV_PARAM_TYPE_INT16]\<rparr>) \<and>
   init toy_codec (toy_world (\<lambda>n. 0) (\<lambda>n. (0, [0xFD, 77])) 0 0) =
     Some (End_of_body,
       \<lparr>write_results = (\<lambda>n. 0), read_results = (\<lambda>n. (0, [0xFD, 77])),
        written =
          [set_param_curried ''SR0_RAW_SENS'' 0 MAV_PARAM_TYPE_INT16,
           set_param_curried ''SR0_EXT_STAT'' 0 MAV_PARAM_TYPE_INT16,
           set_param_curried ''SR0_RC_CHAN'' 0 MAV_PARAM_TYPE_INT16,
           set_param_curried ''SR0_RAW_CTRL'' 0 MAV_PARAM_TYPE_INT16,
           set_param_curried ''SR0_POSITION'' 0 MAV_PARAM_TYPE_INT16,
           set_param_curried ''SR0_EXTRA1'' 0 MAV_PARAM_TYPE_INT16,
           set_param_curried ''SR0_EXTRA2'' 0 MAV_PARAM_TYPE_INT16,
           set_param_curried ''SR0_EXTRA3'' 0 MAV_PARAM_TYPE_INT16,
           set_param_curried ''SR0_PARAMS'' 0 MAV_PARAM_TYPE_INT16,
           set_param_curried ''SR0_ADSB'' 0 MAV_PARAM_TYPE_INT16,
           reboot_command],
        reads_done = 1,
        codec = (\<lambda>ch. \<lparr>frames = 0, last_msgid = 0, in_frame = False\<rparr>)
                  (m_heartbeat_channel := \<lparr>frames = 1, last_msgid = 77, in_frame = False\<rparr>)\<rparr>)"
proof -
  let ?b = "toy_world (\<lambda>n. 0) (\<lambda>n. (0, [0xFD, 77])) 0 0 :: (real, 8 word \<Rightarrow> toy_channel) world"
  let ?sent = "map (\<lambda>name. PARAM_SET m_system_id m_my_id m_heartbeat_channel
                                    m_system_id m_component_id name 0 MAV_PARAM_TYPE_INT16)
                        [''SR0_RAW_SENS'', ''SR0_EXT_STAT'', ''SR0_RC_CHAN'', ''SR0_RAW_CTRL'',
                         ''SR0_POSITION'', ''SR0_EXTRA1'', ''SR0_EXTRA2'', ''SR0_EXTRA3'',
                         ''SR0_PARAMS'', ''SR0_ADSB''] @ [reboot_command :: real mavlink_message]"
  have start: "written ?b = []" and ok: "write_results ?b n = 0" for n
    by (simp_all add: toy_world_def)
  from init_parameter_commands [of ?b toy_codec] obtain k where
    k: "k < 11 \<longrightarrow> write_results ?b (length (written ?b) + k) \<noteq> 0"
    and eleven: "k = 11 \<longrightarrow> init toy_codec ?b =
          (case wait_for_next_message toy_codec m_heartbeat_channel
                  (?b\<lparr>written := written ?b @ ?sent\<rparr>) of
             None \<Rightarrow> None
           | Some (ignored, w'') \<Rightarrow>
               Some (if channel_buffer_msgid toy_codec m_heartbeat_channel (codec w'') \<noteq>
                          MAVLINK_MSG_ID_COMMAND_ACK
                     then Co_return (make_unexpected (make_error_code NoCommandAck))
                     else End_of_body, w''))"
    and "k \<le> 11"
    by blast
  from k ok \<open>k \<le> 11\<close> have "k = 11"
    by (cases "k < 11") simp_all
  with eleven have "init toy_codec ?b =
          (case wait_for_next_message toy_codec m_heartbeat_channel
                  (?b\<lparr>written := written ?b @ ?sent\<rparr>) of
             None \<Rightarrow> None
           | Some (ignored, w'') \<Rightarrow>
               Some (if channel_buffer_msgid toy_codec m_heartbeat_channel (codec w'') \<noteq>
                          MAVLINK_MSG_ID_COMMAND_ACK
                     then Co_return (make_unexpected (make_error_code NoCommandAck))
                     else End_of_body, w''))"
    by blast
  then have acked: "init toy_codec ?b =
     Some (End_of_body,
       \<lparr>write_results = (\<lambda>n. 0), read_results = (\<lambda>n. (0, [0xFD, 77])),
        written =
          [set_param_curried ''SR0_RAW_SENS'' 0 MAV_PARAM_TYPE_INT16,
           set_param_curried ''SR0_EXT_STAT'' 0 MAV_PARAM_TYPE_INT16,
           set_param_curried ''SR0_RC_CHAN'' 0 MAV_PARAM_TYPE_INT16,
           set_param_curried ''SR0_RAW_CTRL'' 0 MAV_PARAM_TYPE_INT16,
           set_param_curried ''SR0_POSITION'' 0 MAV_PARAM_TYPE_INT16,
           set_param_curried ''SR0_EXTRA1'' 0 MAV_PARAM_TYPE_INT16,
           set_param_curried ''SR0_EXTRA2'' 0 MAV_PARAM_TYPE_INT16,
           set_param_curried ''SR0_EXTRA3'' 0 MAV_PARAM_TYPE_INT16,
           set_param_curried ''SR0_PARAMS'' 0 MAV_PARAM_TYPE_INT16,
           set_param_curried ''SR0_ADSB'' 0 MAV_PARAM_TYPE_INT16,
           reboot_command],
        reads_done = 1,
        codec = (\<lambda>ch. \<lparr>frames = 0, last_msgid = 0, in_frame = False\<rparr>)
                  (m_heartbeat_channel := \<lparr>frames = 1, last_msgid = 77, in_frame = False\<rparr>)\<rparr>)"
    unfolding start append_Nil toy_wait_frame
    by (simp add: toy_codec_def MAVLINK_MSG_ID_COMMAND_ACK_def set_param_curried_def)
  let ?a = "toy_world (\<lambda>n. if n = 3 then 5 else 0) (\<lambda>n. (0, [])) 0 0
              :: (real, 8 word \<Rightarrow> toy_channel) world"
  have a: "written ?a = []" "write_results ?a = (\<lambda>n. if n = 3 then 5 else 0)"
    by (simp_all add: toy_world_def)
  from init_parameter_commands [of ?a toy_codec] obtain i where
    before: "\<forall>j<i. write_results ?a (length (written ?a) + j) = 0"
    and at: "i < 11 \<longrightarrow>
        write_results ?a (length (written ?a) + i) \<noteq> 0 \<and>
        init toy_codec ?a =
          Some (Co_return (make_unexpected (make_error_code FailedWrite)),
                ?a\<lparr>written := written ?a @ take (Suc i) ?sent\<rparr>)"
    by blast
  have "i \<le> 3"
  proof (rule ccontr)
    assume "\<not> i \<le> 3"
    then have "3 < i"
      by simp
    with before have "write_results ?a (length (written ?a) + 3) = 0"
      by blast
    then show False
      unfolding a by simp
  qed
  with at have "write_results ?a (length (written ?a) + i) \<noteq> 0"
    by simp
  then have "i = 3"
    unfolding a by (simp split: if_splits)
  with at have "init toy_codec ?a =
          Some (Co_return (make_unexpected (make_error_code FailedWrite)),
                ?a\<lparr>written := written ?a @ take (Suc 3) ?sent\<rparr>)"
    by simp
  then have "init toy_codec ?a =
     Some (Co_return (make_unexpected (make_error_code FailedWrite)),
       ?a\<lparr>written :=
            [set_param_curried ''SR0_RAW_SENS'' 0 MAV_PARAM_TYPE_INT16,
             set_param_curried ''SR0_EXT_STAT'' 0 MAV_PARAM_TYPE_INT16,
             set_param_curried ''SR0_RC_CHAN'' 0 MAV_PARAM_TYPE_INT16,
             set_param_curried ''SR0_RAW_CTRL'' 0 MAV_PARAM_TYPE_INT16]\<rparr>)"
    unfolding a(1) append_Nil by (simp add: set_param_curried_def numeral_3_eq_3)
  with acked show ?thesis
    by (rule conjI [rotated])
qed

text \<open>
  C5. When the eleven writes of \<open>init\<close> succeed and the wait on the heartbeat channel
  then returns with a command acknowledgment in the channel's buffer, \<open>init\<close> runs no
  \<^verbatim>\<open>co_return\<close>: it leaves its loop with no error set and reaches the end of its body.
  No result, and so no success, is handed to the caller.
\<close>

theorem init_command_ack:
  fixes w :: "('f::{zero,one}, 'c) world"
  assumes "\<forall>j<11. write_results w (length (written w) + j) = 0"
    and "wait_for_next_message cdc m_heartbeat_channel (w\<lparr>written := written w @ init_messages\<rparr>) =
           Some (End_of_body, w'')"
    and "channel_buffer_msgid cdc m_heartbeat_channel (codec w'') = MAVLINK_MSG_ID_COMMAND_ACK"
  shows "init cdc w = Some (End_of_body, w'')"
  using assms(2,3) by (simp add: init_writes_ok [OF assms(1)])

theorem init_command_ack_witness:
  "init toy_codec (toy_world (\<lambda>n. 0) (\<lambda>n. (0, [0xFD, 77])) 0 0) =
     Some (End_of_body,
       \<lparr>write_results = (\<lambda>n. 0), read_results = (\<lambda>n. (0, [0xFD, 77])),
        written = init_messages, reads_done = 1,
        codec = (\<lambda>ch. \<lparr>frames = 0, last_msgid = 0, in_frame = False\<rparr>)
                  (m_heartbeat_channel := \<lparr>frames = 1, last_msgid = 77, in_frame = False\<rparr>)\<rparr>)"
proof -
  let ?b = "toy_world (\<lambda>n. 0) (\<lambda>n. (0, [0xFD, 77])) 0 0"
  have ok: "\<forall>j<11. write_results ?b (length (written ?b) + j) = 0"
    by (simp add: toy_world_def)
  have start: "written ?b = []"
    by (simp add: toy_world_def)
  let ?c = "\<lparr>write_results = (\<lambda>n. 0), read_results = (\<lambda>n. (0, [0xFD, 77])),
        written = init_messages, reads_done = 1,
        codec = (\<lambda>ch. \<lparr>frames = 0, last_msgid = 0, in_frame = False\<rparr>)
                  (m_heartbeat_channel := \<lparr>frames = 1, last_msgid = 77, in_frame = False\<rparr>)\<rparr>
        :: (real, 8 word \<Rightarrow> toy_channel) world"
  have waited: "wait_for_next_message toy_codec m_heartbeat_channel
      (?b\<lparr>written := written ?b @ init_messages\<rparr>) = Some (End_of_body, ?c)"
    by (simp add: start toy_wait_frame)
  have "channel_buffer_msgid toy_codec m_heartbeat_channel (codec ?c) = MAVLINK_MSG_ID_COMMAND_ACK"
    by (simp add: toy_codec_def MAVLINK_MSG_ID_COMMAND_ACK_def)
  with ok waited show ?thesis
    by (rule init_command_ack)
qed

text \<open>
  C7. In \<open>init\<close>, after eleven successful writes, an error returned by the wait for the
  acknowledgment is dropped: \<open>init\<close> returns neither that error nor \<open>FailedRead\<close>. It
  goes by the message id found in the heartbeat channel's buffer: \<open>NoCommandAck\<close> when
  that is not the id of a command acknowledgment, and otherwise the end of its body,
  where no result is stored. When it was the first read that failed, that buffer is the
  one from before the call: the decision rests on a stale message.
\<close>

theorem init_discards_wait_error:
  fixes w :: "('f::{zero,one}, 'c) world"
  assumes "\<forall>j<11. write_results w (length (written w) + j) = 0"
    and "wait_for_next_message cdc m_heartbeat_channel (w\<lparr>written := written w @ init_messages\<rparr>) =
           Some (Co_return (make_unexpected e), w'')"
  shows "init cdc w =
           Some (if channel_buffer_msgid cdc m_heartbeat_channel (codec w'') = MAVLINK_MSG_ID_COMMAND_ACK
                 then End_of_body
                 else Co_return (make_unexpected (make_error_code NoCommandAck)), w'') \<and>
         init cdc w \<noteq> Some (Co_return (make_unexpected e), w'') \<and>
         init cdc w \<noteq> Some (Co_return (make_unexpected (make_error_code FailedRead)), w'') \<and>
         (fst (read_results w (reads_done w)) \<noteq> 0 \<longrightarrow> codec w'' = codec w)"
proof -
  let ?w = "w\<lparr>written := written w @ init_messages\<rparr>"
  from assms(2) have result: "init cdc w =
      Some (if channel_buffer_msgid cdc m_heartbeat_channel (codec w'') = MAVLINK_MSG_ID_COMMAND_ACK
            then End_of_body
            else Co_return (make_unexpected (make_error_code NoCommandAck)), w'')"
    by (simp add: init_writes_ok [OF assms(1)])
  from wait_for_next_message_returns [OF assms(2)]
  obtain v where "e = Error_code v asio_category"
    by auto
  then have "e \<noteq> make_error_code NoCommandAck"
    by (simp add: make_error_code_def)
  with result have not_e: "init cdc w \<noteq> Some (Co_return (make_unexpected e), w'')"
    by simp
  from result have not_read:
    "init cdc w \<noteq> Some (Co_return (make_unexpected (make_error_code FailedRead)), w'')"
    by (simp add: make_error_code_def)
  have stale: "codec w'' = codec w" if "fst (read_results w (reads_done w)) \<noteq> 0"
  proof -
    have "\<forall>j<0. fst (read_results ?w (reads_done ?w + j)) = 0"
      by simp
    moreover have "\<forall>j\<le>0. msg_received cdc m_heartbeat_channel
          (codec (after_reads cdc m_heartbeat_channel j ?w)) =
        msg_received cdc m_heartbeat_channel (codec ?w)"
      by simp
    moreover from that have "fst (read_results ?w (reads_done ?w + 0)) \<noteq> 0"
      by simp
    ultimately have "wait_for_next_message cdc m_heartbeat_channel ?w =
      Some (Co_return (make_unexpected
              (Error_code (fst (read_results ?w (reads_done ?w + 0))) asio_category)),
          (after_reads cdc m_heartbeat_channel 0 ?w)\<lparr>reads_done := Suc (reads_done ?w + 0)\<rparr>)"
      by (rule wait_for_next_message_read_fails)
    with assms(2) show ?thesis
      by auto
  qed
  from result not_e not_read stale show ?thesis
    by blast
qed

theorem init_discards_wait_error_witness:
  "init toy_codec (toy_world (\<lambda>n. 0) (\<lambda>n. (5, [])) 4 77) =
     Some (End_of_body, (toy_world (\<lambda>n. 0) (\<lambda>n. (5, [])) 4 77)
                      \<lparr>written := init_messages, reads_done := 1\<rparr>) \<and>
   init toy_codec (toy_world (\<lambda>n. 0) (\<lambda>n. (5, [])) 4 0) =
     Some (Co_return (make_unexpected (make_error_code NoCommandAck)),
           (toy_world (\<lambda>n. 0) (\<lambda>n. (5, [])) 4 0)
             \<lparr>written := init_messages, reads_done := 1\<rparr>)"
proof -
  have run: "init toy_codec (toy_world (\<lambda>n. 0) (\<lambda>n. (5, [])) 4 m) =
     Some (if m = 77 then End_of_body
           else Co_return (make_unexpected (make_error_code NoCommandAck)),
           (toy_world (\<lambda>n. 0) (\<lambda>n. (5, [])) 4 m)\<lparr>written := init_messages, reads_done := 1\<rparr>)"
    for m
  proof -
    let ?a = "toy_world (\<lambda>n. 0) (\<lambda>n. (5, [])) 4 m :: (real, 8 word \<Rightarrow> toy_channel) world"
    let ?c = "?a\<lparr>written := init_messages, reads_done := 1\<rparr>"
    have ok: "\<forall>j<11. write_results ?a (length (written ?a) + j) = 0"
      by (simp add: toy_world_def)
    have start: "written ?a = []"
      by (simp add: toy_world_def)
    have waited: "wait_for_next_message toy_codec m_heartbeat_channel
        (?a\<lparr>written := written ?a @ init_messages\<rparr>) =
          Some (Co_return (make_unexpected (Error_code 5 asio_category)), ?c)"
      using toy_wait_read_error [where e = 5 and channel = m_heartbeat_channel and ws = "\<lambda>n. 0"
        and n = 4 and m = m and msgs = init_messages]
      by (simp add: start) (simp add: toy_world_def)
    have "channel_buffer_msgid toy_codec m_heartbeat_channel (codec ?c) = m"
      by (simp add: toy_codec_def toy_world_def)
    with init_discards_wait_error [OF ok waited] show ?thesis
      by (simp add: MAVLINK_MSG_ID_COMMAND_ACK_def)
  qed
  from run [of 77] run [of 0] show ?thesis
    by simp
qed

text \<open>
  C8. A heartbeat whose write succeeds hands its message to the port and reaches the end
  of its body: it stores no result. The loop around it tests the heartbeat's result after
  every call, so after a successful heartbeat there is nothing defined for it to test.
\<close>

theorem heartbeat_sent_stores_no_result:
  "heartbeat (toy_world (\<lambda>n. 0) (\<lambda>n. (0, [])) 0 0) =
     (End_of_body, (toy_world (\<lambda>n. 0) (\<lambda>n. (0, [])) 0 0)\<lparr>written := [heartbeat_message]\<rparr>)"
  by (simp add: heartbeat_eq) (simp add: toy_world_def)

text \<open>
  C9. A heartbeat whose write fails returns \<open>FailedWrite\<close>, whatever happened before,
  and the call leaves nothing behind but the message handed to the port. The call after
  it returns \<open>FailedWrite\<close> when its own write fails; when its own write succeeds it
  reaches the end of its body and stores no result.
\<close>

theorem heartbeat_after_failed_write:
  "(write_results w (length (written w)) \<noteq> 0 \<longrightarrow>
      fst (heartbeat w) = Co_return (make_unexpected (make_error_code FailedWrite))) \<and>
   snd (heartbeat w) = w\<lparr>written := written w @ [heartbeat_message]\<rparr> \<and>
   fst (heartbeat (snd (heartbeat w))) =
     (if write_results w (Suc (length (written w))) \<noteq> 0
      then Co_return (make_unexpected (make_error_code FailedWrite)) else End_of_body)"
  by (simp add: heartbeat_eq)

theorem heartbeat_after_failed_write_witness:
  "fst (heartbeat (toy_world (\<lambda>n. if n = 0 then 5 else 0) (\<lambda>n. (0, [])) 0 0)) =
     Co_return (make_unexpected (make_error_code FailedWrite)) \<and>
   fst (heartbeat (snd (heartbeat (toy_world (\<lambda>n. if n = 0 then 5 else 0) (\<lambda>n. (0, [])) 0 0)))) =
     End_of_body"
proof -
  let ?a = "toy_world (\<lambda>n. if n = 0 then 5 else 0) (\<lambda>n. (0, [])) 0 0
              :: (real, 8 word \<Rightarrow> toy_channel) world"
  let ?a' = "snd (heartbeat ?a)"
  have a: "write_results ?a (length (written ?a)) \<noteq> 0"
    and a': "write_results ?a (Suc (length (written ?a))) = 0"
    by (simp_all add: toy_world_def)
  note first = heartbeat_after_failed_write [of ?a]
  from first a have failed:
    "fst (heartbeat ?a) = Co_return (make_unexpected (make_error_code FailedWrite))"
    by blast
  from first have "fst (heartbeat ?a') =
      (if write_results ?a (Suc (length (written ?a))) \<noteq> 0
       then Co_return (make_unexpected (make_error_code FailedWrite)) else End_of_body)"
    by blast
  then have "fst (heartbeat ?a') = End_of_body"
    unfolding a' by simp
  with failed show ?thesis
    by blast
qed

end
